theory Spec2Isabelle
  imports Complex_Main
begin

section \<open>Data model\<close>

text \<open>
  The enums of \<^verbatim>\<open>src/types.ts\<close>, the module the controller imports. Both
  \<^verbatim>\<open>ListingStatus\<close> and \<^verbatim>\<open>OfferStatus\<close> have a member \<^verbatim>\<open>CANCELLED\<close>; the
  offer one carries a suffix here.
\<close>

datatype ListingCondition = NEW | LIKE_NEW | GOOD | FAIR

datatype ListingStatus =
  DRAFT | PENDING_APPROVAL | AVAILABLE | PENDING_PAYMENT | SOLD | CANCELLED

datatype OfferStatus = PENDING | ACCEPTED | REJECTED | CANCELLED_offer

text \<open>
  The rows of the three tables (\<^verbatim>\<open>prisma/schema.prisma\<close>, interfaces of
  \<^verbatim>\<open>src/types.ts\<close>). Several interfaces share field names (\<^verbatim>\<open>id\<close>, \<^verbatim>\<open>status\<close>,
  \<^verbatim>\<open>createdAt\<close>, ...), so every field carries the name of its interface in front.
  A JavaScript number is a \<open>real\<close>, a timestamp a \<open>nat\<close>.
\<close>

record MarketplaceListing =
  listing_id :: string
  listing_title :: string
  listing_description :: string
  listing_price :: real
  listing_sellerId :: string
  listing_condition :: ListingCondition
  listing_images :: "string list"
  listing_tags :: "string list"
  listing_status :: ListingStatus
  listing_createdAt :: nat
  listing_updatedAt :: nat

record ListingOffer =
  offer_id :: string
  offer_listingId :: string
  offer_buyerId :: string
  offer_amount :: real
  offer_status :: OfferStatus
  offer_message :: "string option"
  offer_createdAt :: nat
  offer_updatedAt :: nat

record ListingMessage =
  message_id :: string
  message_listingId :: string
  message_senderId :: string
  message_content :: string
  message_createdAt :: nat

text \<open>
  \<^verbatim>\<open>interface ListingResult extends MarketplaceListing\<close>: the listing row together with
  the offers and messages joined to it. The joined \<^verbatim>\<open>seller\<close>, \<^verbatim>\<open>buyer\<close> and
  \<^verbatim>\<open>sender\<close> name objects come from the host's \<^verbatim>\<open>User\<close> table and are read by no
  function of the controller; they are left out.
\<close>

record ListingResult = MarketplaceListing +
  result_offers :: "ListingOffer list"
  result_messages :: "ListingMessage list"

text \<open>The database: one list of rows per table, in insertion order.\<close>

record Database =
  tbl_MarketplaceListing :: "MarketplaceListing list"
  tbl_ListingOffer :: "ListingOffer list"
  tbl_ListingMessage :: "ListingMessage list"

text \<open>\<^verbatim>\<open>interface UserContext\<close> of the controller.\<close>

record UserContext =
  user_id :: string
  user_role :: string
  user_familyId :: string

text \<open>Request bodies (\<^verbatim>\<open>src/types.ts\<close>); an optional key is an \<open>option\<close>.\<close>

record CreateListingInput =
  create_title :: string
  create_description :: string
  create_price :: real
  create_condition :: ListingCondition
  create_images :: "string list"
  create_tags :: "string list option"

text \<open>
  \<^verbatim>\<open>UpdateListingInput\<close>, also the \<^verbatim>\<open>Partial<...>\<close> argument of the client's
  \<^verbatim>\<open>updateListing\<close>. The controller only casts the parsed JSON body to this type, and
  the client writes every key it is handed (\<^verbatim>\<open>Object.entries\<close>), so the body may carry a
  key that names another column: \<open>patch_sellerId\<close> stands for such a key.
\<close>

record UpdateListingInput =
  patch_title :: "string option"
  patch_description :: "string option"
  patch_price :: "real option"
  patch_condition :: "ListingCondition option"
  patch_images :: "string list option"
  patch_tags :: "string list option"
  patch_status :: "ListingStatus option"
  patch_sellerId :: "string option"

record CreateOfferInput =
  create_amount :: real
  create_message :: "string option"

record UpdateOfferInput =
  upd_amount :: "real option"
  upd_message :: "string option"
  upd_status :: "OfferStatus option"

record CreateMessageInput =
  create_content :: string

text \<open>
  Errors as values. \<^verbatim>\<open>MarketplaceErrorCode\<close> is the union of
  \<^verbatim>\<open>src/errors/MarketplaceError.ts\<close>. The other constructors are what the libraries
  throw: \<open>ZodError\<close> from a failed \<^verbatim>\<open>parse\<close>, \<open>TypeError\<close> from \<^verbatim>\<open>Prisma.join\<close>
  on an empty array, \<open>JsError\<close> for \<^verbatim>\<open>new Error(message)\<close>, \<open>UniqueConstraint\<close>
  for an insert whose primary key is taken. \<open>Response403\<close> and \<open>NoRoute\<close> are the
  answers of the route table of \<^verbatim>\<open>src/index.ts\<close>.
\<close>

datatype MarketplaceErrorCode =
    VALIDATION_ERROR | UNAUTHORIZED | FORBIDDEN | NOT_FOUND | LISTING_NOT_FOUND
  | OFFER_NOT_FOUND | MESSAGE_NOT_FOUND | USER_NOT_FOUND | INVALID_STATUS
  | INVALID_CONDITION | INVALID_PRICE | INVALID_OFFER | LISTING_UNAVAILABLE
  | OFFER_CONFLICT | SELF_OFFER | INTERNAL_ERROR

datatype failure =
    MarketplaceError MarketplaceErrorCode
  | ZodError
  | TypeError
  | JsError string
  | UniqueConstraint
  | Response403
  | NoRoute

text \<open>The plugin configuration (\<^verbatim>\<open>configSchema\<close> of \<^verbatim>\<open>src/index.ts\<close>).\<close>

record Features =
  autoApproval :: bool
  messaging :: bool
  offers :: bool

record Roles =
  canCreateListings :: "string list"
  canDeleteListings :: "string list"
  canApproveListings :: "string list"
  canMakeOffers :: "string list"

record Limits =
  maxListingsPerUser :: nat
  maxImagesPerListing :: nat
  maxOffersPerListing :: nat
  maxMessagesPerListing :: nat

record MarketplacePluginConfig =
  features :: Features
  roles :: Roles
  limits :: Limits

section \<open>Validation schemas of the controller\<close>

text \<open>
  \<^verbatim>\<open>z.object({...})\<close> checks the keys it names and strips every other key from its
  output; \<^verbatim>\<open>.partial()\<close> makes every key optional. \<^verbatim>\<open>z.string().min(1)\<close> and
  \<^verbatim>\<open>z.array(...).min(1)\<close> ask for length at least one, \<^verbatim>\<open>z.number().min(0)\<close> for a
  number that is not negative.
\<close>

definition listingSchema_parse :: "CreateListingInput \<Rightarrow> failure + CreateListingInput" where
  "listingSchema_parse d =
     (if 1 \<le> length (create_title d) \<and> 1 \<le> length (create_description d)
         \<and> 0 \<le> create_price d \<and> 1 \<le> length (create_images d)
      then Inr d else Inl ZodError)"

definition option_ok :: "('a \<Rightarrow> bool) \<Rightarrow> 'a option \<Rightarrow> bool" where
  "option_ok p v = (case v of None \<Rightarrow> True | Some x \<Rightarrow> p x)"

definition listingSchema_partial_parse :: "UpdateListingInput \<Rightarrow> failure + UpdateListingInput" where
  "listingSchema_partial_parse d =
     (if option_ok (\<lambda>t. 1 \<le> length t) (patch_title d)
         \<and> option_ok (\<lambda>t. 1 \<le> length t) (patch_description d)
         \<and> option_ok (\<lambda>p. 0 \<le> p) (patch_price d)
         \<and> option_ok (\<lambda>xs. 1 \<le> length xs) (patch_images d)
      then Inr \<lparr>patch_title = patch_title d, patch_description = patch_description d,
                 patch_price = patch_price d, patch_condition = patch_condition d,
                 patch_images = patch_images d, patch_tags = patch_tags d,
                 patch_status = None, patch_sellerId = None\<rparr>
      else Inl ZodError)"

definition offerSchema_parse :: "CreateOfferInput \<Rightarrow> failure + CreateOfferInput" where
  "offerSchema_parse d = (if 0 \<le> create_amount d then Inr d else Inl ZodError)"

definition offerSchema_partial_parse :: "UpdateOfferInput \<Rightarrow> failure + UpdateOfferInput" where
  "offerSchema_partial_parse d =
     (if option_ok (\<lambda>a. 0 \<le> a) (upd_amount d)
      then Inr \<lparr>upd_amount = upd_amount d, upd_message = upd_message d, upd_status = None\<rparr>
      else Inl ZodError)"

definition messageSchema_parse :: "CreateMessageInput \<Rightarrow> failure + CreateMessageInput" where
  "messageSchema_parse d = (if 1 \<le> length (create_content d) then Inr d else Inl ZodError)"

section \<open>The database client (\<^verbatim>\<open>CustomPrismaClient\<close>)\<close>

text \<open>
  Every function takes the database and returns the database it leaves behind together
  with its result or the exception it throws. \<open>now\<close> is \<^verbatim>\<open>CURRENT_TIMESTAMP\<close>,
  \<open>newId\<close> the value of \<^verbatim>\<open>uuid_generate_v4()\<close>. The client's functions have the
  names of the controller's, so they carry \<open>prisma_\<close> in front, as in
  \<^verbatim>\<open>this.prisma.updateListing\<close>.
\<close>

definition toListingResult ::
  "MarketplaceListing \<Rightarrow> ListingOffer list \<Rightarrow> ListingMessage list \<Rightarrow> ListingResult" where
  "toListingResult l os ms = MarketplaceListing.extend l (ListingResult.fields os ms)"

definition findListingById :: "Database \<Rightarrow> string \<Rightarrow> ListingResult option" where
  "findListingById db i =
     (case find (\<lambda>l. listing_id l = i) (tbl_MarketplaceListing db) of
        None \<Rightarrow> None
      | Some l \<Rightarrow>
          Some (toListingResult l
            (remdups (filter (\<lambda>ofr. offer_listingId ofr = i) (tbl_ListingOffer db)))
            (remdups (filter (\<lambda>m. message_listingId m = i) (tbl_ListingMessage db)))))"

definition prisma_createListing ::
  "Database \<Rightarrow> string \<Rightarrow> nat \<Rightarrow> CreateListingInput \<Rightarrow> string
    \<Rightarrow> Database \<times> (failure + ListingResult option)" where
  "prisma_createListing db newId now d seller =
     (if find (\<lambda>l. listing_id l = newId) (tbl_MarketplaceListing db) \<noteq> None
      then (db, Inl UniqueConstraint)
      else
        let row = \<lparr>listing_id = newId, listing_title = create_title d,
                   listing_description = create_description d, listing_price = create_price d,
                   listing_sellerId = seller, listing_condition = create_condition d,
                   listing_images = create_images d,
                   listing_tags = (case create_tags d of None \<Rightarrow> [] | Some ts \<Rightarrow> ts),
                   listing_status = PENDING_APPROVAL,
                   listing_createdAt = now, listing_updatedAt = now\<rparr>;
            db' = db\<lparr>tbl_MarketplaceListing := tbl_MarketplaceListing db @ [row]\<rparr>
        in (db', Inr (findListingById db' (listing_id row))))"

text \<open>
  One \<^verbatim>\<open>SET\<close> clause per key whose value is not \<^verbatim>\<open>undefined\<close>, and
  \<^verbatim>\<open>"updatedAt" = CURRENT_TIMESTAMP\<close>.
\<close>

definition listing_setClauses :: "UpdateListingInput \<Rightarrow> nat" where
  "listing_setClauses d =
     length (filter id
       [patch_title d \<noteq> None, patch_description d \<noteq> None, patch_price d \<noteq> None,
        patch_condition d \<noteq> None, patch_images d \<noteq> None, patch_tags d \<noteq> None,
        patch_status d \<noteq> None, patch_sellerId d \<noteq> None])"

definition or_else :: "'a option \<Rightarrow> 'a \<Rightarrow> 'a" where
  "or_else v old = (case v of None \<Rightarrow> old | Some x \<Rightarrow> x)"

definition listing_apply_set :: "UpdateListingInput \<Rightarrow> nat \<Rightarrow> MarketplaceListing \<Rightarrow> MarketplaceListing" where
  "listing_apply_set d now l =
     l\<lparr>listing_title := or_else (patch_title d) (listing_title l),
       listing_description := or_else (patch_description d) (listing_description l),
       listing_price := or_else (patch_price d) (listing_price l),
       listing_condition := or_else (patch_condition d) (listing_condition l),
       listing_images := or_else (patch_images d) (listing_images l),
       listing_tags := or_else (patch_tags d) (listing_tags l),
       listing_status := or_else (patch_status d) (listing_status l),
       listing_sellerId := or_else (patch_sellerId d) (listing_sellerId l),
       listing_updatedAt := now\<rparr>"

definition prisma_updateListing ::
  "Database \<Rightarrow> nat \<Rightarrow> string \<Rightarrow> UpdateListingInput \<Rightarrow> Database \<times> (failure + ListingResult)" where
  "prisma_updateListing db now i d =
     (let db' = (if 0 < listing_setClauses d
                 then db\<lparr>tbl_MarketplaceListing :=
                        map (\<lambda>l. if listing_id l = i then listing_apply_set d now l else l)
                          (tbl_MarketplaceListing db)\<rparr>
                 else db)
      in case findListingById db' i of
           None \<Rightarrow> (db', Inl (JsError ''Failed to update listing''))
         | Some listing \<Rightarrow> (db', Inr listing))"

definition prisma_deleteListing ::
  "Database \<Rightarrow> string \<Rightarrow> Database \<times> (failure + MarketplaceListing)" where
  "prisma_deleteListing db i =
     (case filter (\<lambda>l. listing_id l = i) (tbl_MarketplaceListing db) of
        [] \<Rightarrow> (db, Inl (JsError ''Listing not found''))
      | l # _ \<Rightarrow>
          (db\<lparr>tbl_MarketplaceListing :=
                filter (\<lambda>l. listing_id l \<noteq> i) (tbl_MarketplaceListing db)\<rparr>, Inr l))"

definition prisma_createOffer ::
  "Database \<Rightarrow> string \<Rightarrow> nat \<Rightarrow> CreateOfferInput \<Rightarrow> string \<Rightarrow> string
    \<Rightarrow> Database \<times> (failure + ListingOffer)" where
  "prisma_createOffer db newId now d listingId buyerId =
     (if find (\<lambda>ofr. offer_id ofr = newId) (tbl_ListingOffer db) \<noteq> None
      then (db, Inl UniqueConstraint)
      else
        let row = \<lparr>offer_id = newId, offer_listingId = listingId, offer_buyerId = buyerId,
                   offer_amount = create_amount d, offer_status = PENDING,
                   offer_message = (case create_message d of
                                      None \<Rightarrow> None
                                    | Some m \<Rightarrow> if m = [] then None else Some m),
                   offer_createdAt = now, offer_updatedAt = now\<rparr>
        in (db\<lparr>tbl_ListingOffer := tbl_ListingOffer db @ [row]\<rparr>, Inr row))"

definition offer_setClauses :: "UpdateOfferInput \<Rightarrow> nat" where
  "offer_setClauses d =
     length (filter id [upd_amount d \<noteq> None, upd_message d \<noteq> None, upd_status d \<noteq> None])"

definition offer_apply_set :: "UpdateOfferInput \<Rightarrow> nat \<Rightarrow> ListingOffer \<Rightarrow> ListingOffer" where
  "offer_apply_set d now ofr =
     ofr\<lparr>offer_amount := or_else (upd_amount d) (offer_amount ofr),
        offer_message := (case upd_message d of None \<Rightarrow> offer_message ofr | Some m \<Rightarrow> Some m),
        offer_status := or_else (upd_status d) (offer_status ofr),
        offer_updatedAt := now\<rparr>"

text \<open>
  \<^verbatim>\<open>Prisma.join(setClauses, ', ')\<close> throws a \<^verbatim>\<open>TypeError\<close> on an empty array,
  before any statement reaches the database.
\<close>

definition prisma_updateOffer ::
  "Database \<Rightarrow> nat \<Rightarrow> string \<Rightarrow> UpdateOfferInput \<Rightarrow> Database \<times> (failure + ListingOffer)" where
  "prisma_updateOffer db now i d =
     (if offer_setClauses d = 0 then (db, Inl TypeError)
      else
        let db' = db\<lparr>tbl_ListingOffer :=
                      map (\<lambda>ofr. if offer_id ofr = i then offer_apply_set d now ofr else ofr)
                        (tbl_ListingOffer db)\<rparr>
        in case filter (\<lambda>ofr. offer_id ofr = i) (tbl_ListingOffer db') of
             [] \<Rightarrow> (db', Inl (JsError ''Failed to update offer''))
           | r # _ \<Rightarrow> (db', Inr r))"

definition prisma_createMessage ::
  "Database \<Rightarrow> string \<Rightarrow> nat \<Rightarrow> CreateMessageInput \<Rightarrow> string \<Rightarrow> string
    \<Rightarrow> Database \<times> (failure + ListingMessage)" where
  "prisma_createMessage db newId now d listingId senderId =
     (if find (\<lambda>m. message_id m = newId) (tbl_ListingMessage db) \<noteq> None
      then (db, Inl UniqueConstraint)
      else
        let row = \<lparr>message_id = newId, message_listingId = listingId,
                   message_senderId = senderId, message_content = create_content d,
                   message_createdAt = now\<rparr>
        in (db\<lparr>tbl_ListingMessage := tbl_ListingMessage db @ [row]\<rparr>, Inr row))"

section \<open>The controller (\<^verbatim>\<open>MarketplaceController\<close>)\<close>

text \<open>
  Each handler runs inside \<^verbatim>\<open>try { ... } catch (error) { return errorResponse(c, error) }\<close>:
  an exception ends the handler and becomes its answer, and what was written to the
  database before it stays written.
\<close>

definition createListing ::
  "Database \<Rightarrow> UserContext \<Rightarrow> CreateListingInput \<Rightarrow> string \<Rightarrow> nat
    \<Rightarrow> Database \<times> (failure + ListingResult option)" where
  "createListing db user d newId now =
     (case listingSchema_parse d of
        Inl e \<Rightarrow> (db, Inl e)
      | Inr validatedData \<Rightarrow> prisma_createListing db newId now validatedData (user_id user))"

definition updateListing ::
  "Database \<Rightarrow> UserContext \<Rightarrow> string \<Rightarrow> UpdateListingInput \<Rightarrow> nat
    \<Rightarrow> Database \<times> (failure + ListingResult)" where
  "updateListing db user i d now =
     (case findListingById db i of
        None \<Rightarrow> (db, Inl (MarketplaceError LISTING_NOT_FOUND))
      | Some existingListing \<Rightarrow>
          if listing_sellerId existingListing \<noteq> user_id user
          then (db, Inl (MarketplaceError FORBIDDEN))
          else (case listingSchema_partial_parse d of
                  Inl e \<Rightarrow> (db, Inl e)
                | Inr validatedData \<Rightarrow> prisma_updateListing db now i validatedData))"

definition deleteListing ::
  "Database \<Rightarrow> UserContext \<Rightarrow> string \<Rightarrow> Database \<times> (failure + unit)" where
  "deleteListing db user i =
     (case findListingById db i of
        None \<Rightarrow> (db, Inl (MarketplaceError LISTING_NOT_FOUND))
      | Some listing \<Rightarrow>
          if listing_sellerId listing \<noteq> user_id user
          then (db, Inl (MarketplaceError FORBIDDEN))
          else (case prisma_deleteListing db i of
                  (db', Inl e) \<Rightarrow> (db', Inl e)
                | (db', Inr _) \<Rightarrow> (db', Inr ())))"

definition createOffer ::
  "Database \<Rightarrow> UserContext \<Rightarrow> string \<Rightarrow> CreateOfferInput \<Rightarrow> string \<Rightarrow> nat
    \<Rightarrow> Database \<times> (failure + ListingOffer)" where
  "createOffer db user listingId d newId now =
     (case findListingById db listingId of
        None \<Rightarrow> (db, Inl (MarketplaceError LISTING_NOT_FOUND))
      | Some listing \<Rightarrow>
          if listing_status listing \<noteq> AVAILABLE
          then (db, Inl (MarketplaceError LISTING_UNAVAILABLE))
          else if listing_sellerId listing = user_id user
          then (db, Inl (MarketplaceError SELF_OFFER))
          else (case offerSchema_parse d of
                  Inl e \<Rightarrow> (db, Inl e)
                | Inr validatedData \<Rightarrow>
                    prisma_createOffer db newId now validatedData listingId (user_id user)))"

text \<open>
  JavaScript truthiness of the optional body keys: a status is a non-empty string, an
  amount is truthy unless it is \<open>0\<close>, a message unless it is empty.
\<close>

definition truthy_amount :: "real option \<Rightarrow> bool" where
  "truthy_amount a = (case a of None \<Rightarrow> False | Some x \<Rightarrow> x \<noteq> 0)"

definition truthy_message :: "string option \<Rightarrow> bool" where
  "truthy_message m = (case m of None \<Rightarrow> False | Some x \<Rightarrow> x \<noteq> [])"

definition status_patch :: "ListingStatus \<Rightarrow> UpdateListingInput" where
  "status_patch s =
     \<lparr>patch_title = None, patch_description = None, patch_price = None,
      patch_condition = None, patch_images = None, patch_tags = None,
      patch_status = Some s, patch_sellerId = None\<rparr>"

definition updateOffer ::
  "Database \<Rightarrow> UserContext \<Rightarrow> string \<Rightarrow> UpdateOfferInput \<Rightarrow> nat
    \<Rightarrow> Database \<times> (failure + ListingOffer)" where
  "updateOffer db user i d now =
     (case findListingById db i of
        None \<Rightarrow> (db, Inl (MarketplaceError LISTING_NOT_FOUND))
      | Some listing \<Rightarrow>
          if upd_status d \<noteq> None \<and> listing_sellerId listing \<noteq> user_id user
          then (db, Inl (MarketplaceError FORBIDDEN))
          else if (truthy_amount (upd_amount d) \<or> truthy_message (upd_message d))
                  \<and> listing_sellerId listing = user_id user
          then (db, Inl (MarketplaceError FORBIDDEN))
          else (case offerSchema_partial_parse d of
                  Inl e \<Rightarrow> (db, Inl e)
                | Inr validatedData \<Rightarrow>
                    (case prisma_updateOffer db now i validatedData of
                       (db1, Inl e) \<Rightarrow> (db1, Inl e)
                     | (db1, Inr updatedOffer) \<Rightarrow>
                         if upd_status d = Some ACCEPTED
                         then (case prisma_updateListing db1 now (listing_id listing)
                                      (status_patch PENDING_PAYMENT) of
                                 (db2, Inl e) \<Rightarrow> (db2, Inl e)
                               | (db2, Inr _) \<Rightarrow> (db2, Inr updatedOffer))
                         else (db1, Inr updatedOffer))))"

definition createMessage ::
  "Database \<Rightarrow> UserContext \<Rightarrow> string \<Rightarrow> CreateMessageInput \<Rightarrow> string \<Rightarrow> nat
    \<Rightarrow> Database \<times> (failure + ListingMessage)" where
  "createMessage db user listingId d newId now =
     (case findListingById db listingId of
        None \<Rightarrow> (db, Inl (MarketplaceError LISTING_NOT_FOUND))
      | Some listing \<Rightarrow>
          (case messageSchema_parse d of
             Inl e \<Rightarrow> (db, Inl e)
           | Inr validatedData \<Rightarrow>
               prisma_createMessage db newId now validatedData listingId (user_id user)))"

text \<open>The two event handlers log the exception and throw it again.\<close>

definition handleListingApproved ::
  "Database \<Rightarrow> string \<Rightarrow> nat \<Rightarrow> Database \<times> (failure + unit)" where
  "handleListingApproved db listingId now =
     (case prisma_updateListing db now listingId (status_patch AVAILABLE) of
        (db', Inl e) \<Rightarrow> (db', Inl e)
      | (db', Inr _) \<Rightarrow> (db', Inr ()))"

definition handlePaymentCompleted ::
  "Database \<Rightarrow> string \<Rightarrow> nat \<Rightarrow> Database \<times> (failure + unit)" where
  "handlePaymentCompleted db listingId now =
     (case prisma_updateListing db now listingId (status_patch SOLD) of
        (db', Inl e) \<Rightarrow> (db', Inl e)
      | (db', Inr _) \<Rightarrow> (db', Inr ()))"

section \<open>The route table (\<^verbatim>\<open>MarketplacePlugin.getRoutes\<close>, \<^verbatim>\<open>handleEvent\<close>)\<close>

text \<open>
  Three routes check the caller's role against the configuration before they call the
  controller; the approve route exists only while \<^verbatim>\<open>features.autoApproval\<close> is off.
\<close>

definition route_createListing ::
  "MarketplacePluginConfig \<Rightarrow> Database \<Rightarrow> UserContext \<Rightarrow> CreateListingInput \<Rightarrow> string \<Rightarrow> nat
    \<Rightarrow> Database \<times> (failure + ListingResult option)" where
  "route_createListing config db user d newId now =
     (if user_role user \<notin> set (canCreateListings (roles config)) then (db, Inl Response403)
      else createListing db user d newId now)"

definition route_deleteListing ::
  "MarketplacePluginConfig \<Rightarrow> Database \<Rightarrow> UserContext \<Rightarrow> string
    \<Rightarrow> Database \<times> (failure + unit)" where
  "route_deleteListing config db user i =
     (if user_role user \<notin> set (canDeleteListings (roles config)) then (db, Inl Response403)
      else deleteListing db user i)"

definition route_createOffer ::
  "MarketplacePluginConfig \<Rightarrow> Database \<Rightarrow> UserContext \<Rightarrow> string \<Rightarrow> CreateOfferInput
    \<Rightarrow> string \<Rightarrow> nat \<Rightarrow> Database \<times> (failure + ListingOffer)" where
  "route_createOffer config db user listingId d newId now =
     (if user_role user \<notin> set (canMakeOffers (roles config)) then (db, Inl Response403)
      else createOffer db user listingId d newId now)"

definition route_approve ::
  "MarketplacePluginConfig \<Rightarrow> Database \<Rightarrow> UserContext \<Rightarrow> string \<Rightarrow> nat
    \<Rightarrow> Database \<times> (failure + unit)" where
  "route_approve config db user i now =
     (if autoApproval (features config) then (db, Inl NoRoute)
      else if user_role user \<notin> set (canApproveListings (roles config))
      then (db, Inl Response403)
      else handleListingApproved db i now)"

text \<open>
  Every request that can write to the database, with the values the host supplies
  (the authenticated user, the generated id, the time). The two \<^verbatim>\<open>GET\<close> routes only
  read. \<open>dispatch\<close> gives the database after the request.
\<close>

datatype request =
    PostListing UserContext CreateListingInput string nat
  | PutListing UserContext string UpdateListingInput nat
  | DeleteListing UserContext string
  | PostOffer UserContext string CreateOfferInput string nat
  | PutOffer UserContext string UpdateOfferInput nat
  | PostMessage UserContext string CreateMessageInput string nat
  | PostApprove UserContext string nat
  | PaymentCompleted string nat

fun dispatch :: "MarketplacePluginConfig \<Rightarrow> Database \<Rightarrow> request \<Rightarrow> Database" where
  "dispatch config db (PostListing user d newId now) =
     fst (route_createListing config db user d newId now)"
| "dispatch config db (PutListing user i d now) = fst (updateListing db user i d now)"
| "dispatch config db (DeleteListing user i) = fst (route_deleteListing config db user i)"
| "dispatch config db (PostOffer user listingId d newId now) =
     fst (route_createOffer config db user listingId d newId now)"
| "dispatch config db (PutOffer user i d now) = fst (updateOffer db user i d now)"
| "dispatch config db (PostMessage user listingId d newId now) =
     fst (createMessage db user listingId d newId now)"
| "dispatch config db (PostApprove user i now) = fst (route_approve config db user i now)"
| "dispatch config db (PaymentCompleted listingId now) =
     fst (handlePaymentCompleted db listingId now)"

section \<open>Notions used to state the properties\<close>

text \<open>The stored row of a listing: the row the \<^verbatim>\<open>WHERE l.id = ...\<close> of
  \<open>findListingById\<close> selects.\<close>

definition listingRow :: "Database \<Rightarrow> string \<Rightarrow> MarketplaceListing option" where
  "listingRow db i = find (\<lambda>l. listing_id l = i) (tbl_MarketplaceListing db)"

text \<open>The offers of a listing that are not in a terminal status. Of the four members of
  \<^verbatim>\<open>OfferStatus\<close> only \<^verbatim>\<open>PENDING\<close> is not terminal.\<close>

definition nonTerminalOffers :: "Database \<Rightarrow> string \<Rightarrow> ListingOffer list" where
  "nonTerminalOffers db listingId =
     filter (\<lambda>ofr. offer_listingId ofr = listingId \<and> offer_status ofr = PENDING)
       (tbl_ListingOffer db)"

text \<open>
  Every id is a value of \<^verbatim>\<open>uuid_generate_v4()\<close>, so in a database the program has built
  no offer carries the id of a listing. \<open>fresh_id\<close> says that the id generated for a
  request is the id of no row, as a generated id is; under it every request keeps
  \<open>disjoint_ids\<close>.
\<close>

definition disjoint_ids :: "Database \<Rightarrow> bool" where
  "disjoint_ids db =
     (set (map offer_id (tbl_ListingOffer db)) \<inter> set (map listing_id (tbl_MarketplaceListing db)) = {})"



section \<open>Example data\<close>

text \<open>The defaults of \<^verbatim>\<open>configSchema\<close>, and two variations of them.\<close>

definition default_config :: MarketplacePluginConfig where
  "default_config =
     \<lparr>features = \<lparr>autoApproval = False, messaging = True, offers = True\<rparr>,
      roles = \<lparr>canCreateListings = [''PARENT'', ''CHILD''], canDeleteListings = [''PARENT''],
               canApproveListings = [''PARENT''], canMakeOffers = [''PARENT'', ''CHILD'']\<rparr>,
      limits = \<lparr>maxListingsPerUser = 50, maxImagesPerListing = 10,
                maxOffersPerListing = 20, maxMessagesPerListing = 100\<rparr>\<rparr>"

definition auto_config :: MarketplacePluginConfig where
  "auto_config = default_config\<lparr>features := \<lparr>autoApproval = True, messaging = True, offers = True\<rparr>\<rparr>"

definition two_offers_config :: MarketplacePluginConfig where
  "two_offers_config =
     default_config\<lparr>limits := \<lparr>maxListingsPerUser = 50, maxImagesPerListing = 10,
                               maxOffersPerListing = 2, maxMessagesPerListing = 100\<rparr>\<rparr>"

definition parent :: "string \<Rightarrow> UserContext" where
  "parent uid = \<lparr>user_id = uid, user_role = ''PARENT'', user_familyId = ''F''\<rparr>"

text \<open>A listing of seller \<open>S\<close> with a given id and status, and an offer on it.\<close>

definition demo_listing :: "string \<Rightarrow> ListingStatus \<Rightarrow> MarketplaceListing" where
  "demo_listing i st =
     \<lparr>listing_id = i, listing_title = ''Bike'', listing_description = ''A bike'',
      listing_price = 150, listing_sellerId = ''S'', listing_condition = GOOD,
      listing_images = [''bike.png''], listing_tags = [], listing_status = st,
      listing_createdAt = 1, listing_updatedAt = 1\<rparr>"

definition demo_offer :: "string \<Rightarrow> string \<Rightarrow> string \<Rightarrow> real \<Rightarrow> OfferStatus \<Rightarrow> ListingOffer" where
  "demo_offer i listingId buyer amt st =
     \<lparr>offer_id = i, offer_listingId = listingId, offer_buyerId = buyer, offer_amount = amt,
      offer_status = st, offer_message = None, offer_createdAt = 2, offer_updatedAt = 2\<rparr>"

definition demo_db :: "ListingStatus \<Rightarrow> ListingOffer list \<Rightarrow> Database" where
  "demo_db st ofrs =
     \<lparr>tbl_MarketplaceListing = [demo_listing ''L1'' st], tbl_ListingOffer = ofrs,
      tbl_ListingMessage = []\<rparr>"

definition demo_create_listing :: CreateListingInput where
  "demo_create_listing =
     \<lparr>create_title = ''Bike'', create_description = ''A bike'', create_price = 150,
      create_condition = GOOD, create_images = [''bike.png''], create_tags = None\<rparr>"

definition demo_create_offer :: "real \<Rightarrow> CreateOfferInput" where
  "demo_create_offer amt = \<lparr>create_amount = amt, create_message = None\<rparr>"

definition accept_body :: "real option \<Rightarrow> UpdateOfferInput" where
  "accept_body amt = \<lparr>upd_amount = amt, upd_message = None, upd_status = Some ACCEPTED\<rparr>"

definition demo_patch :: UpdateListingInput where
  "demo_patch =
     \<lparr>patch_title = Some ''Trike'', patch_description = None, patch_price = None,
      patch_condition = None, patch_images = None, patch_tags = None,
      patch_status = Some SOLD, patch_sellerId = Some ''X''\<rparr>"

text \<open>A database in which the offer \<open>O1\<close> on listing \<open>L1\<close> shares its id with a second
  listing, of seller \<open>T\<close>.\<close>

definition shared_id_db :: Database where
  "shared_id_db =
     \<lparr>tbl_MarketplaceListing =
        [demo_listing ''L1'' AVAILABLE, (demo_listing ''O1'' AVAILABLE)\<lparr>listing_sellerId := ''T''\<rparr>],
      tbl_ListingOffer = [demo_offer ''O1'' ''L1'' ''B1'' 100 PENDING],
      tbl_ListingMessage = []\<rparr>"



section \<open>Basic facts about the database client\<close>

lemma toListingResult_sel [simp]:
  "listing_id (toListingResult l os ms) = listing_id l"
  "listing_sellerId (toListingResult l os ms) = listing_sellerId l"
  "listing_status (toListingResult l os ms) = listing_status l"
  "listing_updatedAt (toListingResult l os ms) = listing_updatedAt l"
  "result_offers (toListingResult l os ms) = os"
  "result_messages (toListingResult l os ms) = ms"
  by (simp_all add: toListingResult_def MarketplaceListing.defs ListingResult.defs)

lemma findListingById_None: "findListingById db i = None \<longleftrightarrow> listingRow db i = None"
  by (simp add: findListingById_def listingRow_def split: option.splits)

lemma findListingById_Some:
  "findListingById db i = Some r \<Longrightarrow>
     \<exists>l. listingRow db i = Some l \<and> listing_id r = i \<and> listing_id l = i
       \<and> listing_status r = listing_status l \<and> listing_sellerId r = listing_sellerId l"
  by (auto simp: findListingById_def listingRow_def find_Some_iff split: option.splits)

lemma findListingById_row:
  "listingRow db i = Some l \<Longrightarrow>
     findListingById db i = Some (toListingResult l
            (remdups (filter (\<lambda>ofr. offer_listingId ofr = i) (tbl_ListingOffer db)))
            (remdups (filter (\<lambda>m. message_listingId m = i) (tbl_ListingMessage db))))"
  by (simp add: findListingById_def listingRow_def)

lemma find_map_update:
  assumes "\<And>l. listing_id (f l) = listing_id l"
  shows "find (\<lambda>l. listing_id l = i) (map (\<lambda>l. if listing_id l = j then f l else l) ls)
       = map_option (\<lambda>l. if listing_id l = j then f l else l) (find (\<lambda>l. listing_id l = i) ls)"
  by (induction ls) (auto simp: assms)

lemma find_append_new:
  "find P (xs @ [y]) = (case find P xs of None \<Rightarrow> (if P y then Some y else None) | Some x \<Rightarrow> Some x)"
  by (induction xs) auto

lemma find_filter_other:
  "find (\<lambda>l. listing_id l = i) (filter (\<lambda>l. listing_id l \<noteq> j) ls)
     = (if i = j then None else find (\<lambda>l. listing_id l = i) ls)"
  by (induction ls) auto

lemma listing_apply_set_id [simp]: "listing_id (listing_apply_set d now l) = listing_id l"
  by (simp add: listing_apply_set_def)

lemma listing_setClauses_status_patch [simp]: "0 < listing_setClauses (status_patch s)"
  by (simp add: listing_setClauses_def status_patch_def)

lemma apply_status_patch [simp]:
  "listing_apply_set (status_patch s) now l = l\<lparr>listing_status := s, listing_updatedAt := now\<rparr>"
  by (simp add: listing_apply_set_def status_patch_def or_else_def)

lemma listingRow_update:
  "listingRow (db\<lparr>tbl_MarketplaceListing :=
        map (\<lambda>l. if listing_id l = j then listing_apply_set d now l else l) (tbl_MarketplaceListing db)\<rparr>) i
     = map_option (\<lambda>l. if listing_id l = j then listing_apply_set d now l else l) (listingRow db i)"
  by (simp add: listingRow_def find_map_update)

lemma prisma_updateListing_listings:
  "tbl_MarketplaceListing (fst (prisma_updateListing db now i d))
     = (if 0 < listing_setClauses d
        then map (\<lambda>l. if listing_id l = i then listing_apply_set d now l else l) (tbl_MarketplaceListing db)
        else tbl_MarketplaceListing db)"
  "tbl_ListingOffer (fst (prisma_updateListing db now i d)) = tbl_ListingOffer db"
  "tbl_ListingMessage (fst (prisma_updateListing db now i d)) = tbl_ListingMessage db"
  by (simp_all add: prisma_updateListing_def Let_def split: option.splits)

lemma prisma_updateListing_status_patch:
  assumes "listingRow db i = Some l"
  shows "prisma_updateListing db now i (status_patch s)
     = (db\<lparr>tbl_MarketplaceListing :=
            map (\<lambda>l. if listing_id l = i then l\<lparr>listing_status := s, listing_updatedAt := now\<rparr> else l)
              (tbl_MarketplaceListing db)\<rparr>,
        Inr (toListingResult (l\<lparr>listing_status := s, listing_updatedAt := now\<rparr>)
            (remdups (filter (\<lambda>ofr. offer_listingId ofr = i) (tbl_ListingOffer db)))
            (remdups (filter (\<lambda>m. message_listingId m = i) (tbl_ListingMessage db)))))"
proof -
  have id: "listing_id l = i"
    using assms by (auto simp: listingRow_def find_Some_iff)
  let ?db' = "db\<lparr>tbl_MarketplaceListing :=
            map (\<lambda>l. if listing_id l = i then listing_apply_set (status_patch s) now l else l)
              (tbl_MarketplaceListing db)\<rparr>"
  have "listingRow ?db' i = Some (l\<lparr>listing_status := s, listing_updatedAt := now\<rparr>)"
    using assms id by (simp only: listingRow_update) simp
  from findListingById_row [OF this] show ?thesis
    by (simp add: prisma_updateListing_def)
qed

lemma prisma_updateListing_missing:
  assumes "listingRow db i = None"
  shows "prisma_updateListing db now i d = (db, Inl (JsError ''Failed to update listing''))"
proof -
  have "map (\<lambda>l. if listing_id l = i then listing_apply_set d now l else l) (tbl_MarketplaceListing db)
      = tbl_MarketplaceListing db"
    using assms by (auto simp: listingRow_def find_None_iff intro!: map_idI)
  then show ?thesis
    using assms by (simp add: prisma_updateListing_def findListingById_None [symmetric] split: option.splits)
qed

lemma handlePaymentCompleted_row:
  assumes "listingRow db i = Some l"
  shows "handlePaymentCompleted db i now
     = (db\<lparr>tbl_MarketplaceListing :=
            map (\<lambda>l. if listing_id l = i then l\<lparr>listing_status := SOLD, listing_updatedAt := now\<rparr> else l)
              (tbl_MarketplaceListing db)\<rparr>, Inr ())"
  by (simp add: handlePaymentCompleted_def prisma_updateListing_status_patch [OF assms])

lemma demo_find [simp]:
  "findListingById (demo_db st ofrs) ''L1''
     = Some (toListingResult (demo_listing ''L1'' st)
         (remdups (filter (\<lambda>ofr. offer_listingId ofr = ''L1'') ofrs)) [])"
  by (simp add: findListingById_def demo_db_def demo_listing_def)

lemma demo_row [simp]: "listingRow (demo_db st ofrs) ''L1'' = Some (demo_listing ''L1'' st)"
  by (simp add: listingRow_def demo_db_def demo_listing_def)

lemma handleListingApproved_row:
  assumes "listingRow db i = Some l"
  shows "handleListingApproved db i now
     = (db\<lparr>tbl_MarketplaceListing :=
            map (\<lambda>l. if listing_id l = i then l\<lparr>listing_status := AVAILABLE, listing_updatedAt := now\<rparr> else l)
              (tbl_MarketplaceListing db)\<rparr>, Inr ())"
  by (simp add: handleListingApproved_def prisma_updateListing_status_patch [OF assms])

lemma listing_apply_set_fields [simp]:
  "listing_status (listing_apply_set d now l) = or_else (patch_status d) (listing_status l)"
  "listing_sellerId (listing_apply_set d now l) = or_else (patch_sellerId d) (listing_sellerId l)"
  by (simp_all add: listing_apply_set_def)

lemma or_else_None [simp]: "or_else None x = x"
  by (simp add: or_else_def)

lemma or_else_Some [simp]: "or_else (Some y) x = y"
  by (simp add: or_else_def)

lemma listingRow_id: "listingRow db i = Some r \<Longrightarrow> listing_id r = i"
  by (auto simp: listingRow_def find_Some_iff)

lemma prisma_updateListing_found:
  assumes "listingRow db i = Some r"
  shows "\<not> isl (snd (prisma_updateListing db now i d))
       \<and> listing_status (projr (snd (prisma_updateListing db now i d)))
            = (if 0 < listing_setClauses d then or_else (patch_status d) (listing_status r) else listing_status r)
       \<and> listingRow (fst (prisma_updateListing db now i d)) i
            = Some (if 0 < listing_setClauses d then listing_apply_set d now r else r)"
proof (cases "0 < listing_setClauses d")
  case True
  let ?db' = "db\<lparr>tbl_MarketplaceListing :=
            map (\<lambda>l. if listing_id l = i then listing_apply_set d now l else l) (tbl_MarketplaceListing db)\<rparr>"
  have row: "listingRow ?db' i = Some (listing_apply_set d now r)"
    using assms listingRow_id [OF assms] by (simp only: listingRow_update) simp
  from findListingById_row [OF row] row True show ?thesis
    by (simp add: prisma_updateListing_def)
next
  case False
  from findListingById_row [OF assms] assms False show ?thesis
    by (simp add: prisma_updateListing_def)
qed

lemma listingSchema_partial_parse_cases:
  "listingSchema_partial_parse d = Inl ZodError
   \<or> (\<exists>v. listingSchema_partial_parse d = Inr v \<and> patch_status v = None \<and> patch_sellerId v = None)"
  by (simp add: listingSchema_partial_parse_def)

lemma listingSchema_partial_parse_status:
  "listingSchema_partial_parse (d\<lparr>patch_status := s\<rparr>) = listingSchema_partial_parse d"
  by (simp add: listingSchema_partial_parse_def)

lemma createListing_status:
  "snd (createListing db user d newId now) = Inr r \<Longrightarrow>
     map_option listing_status r = Some PENDING_APPROVAL"
  by (auto simp: createListing_def prisma_createListing_def Let_def findListingById_def
        find_append_new split: sum.splits if_splits option.splits)

lemma offerSchema_partial_parse_status:
  "offerSchema_partial_parse d = Inr v \<Longrightarrow> upd_status v = None"
  by (auto simp: offerSchema_partial_parse_def split: if_splits)

lemma prisma_updateOffer_tables:
  "upd_status v = None \<Longrightarrow>
     map offer_status (tbl_ListingOffer (fst (prisma_updateOffer db now i v)))
       = map offer_status (tbl_ListingOffer db)"
  "tbl_MarketplaceListing (fst (prisma_updateOffer db now i v)) = tbl_MarketplaceListing db"
  "tbl_ListingMessage (fst (prisma_updateOffer db now i v)) = tbl_ListingMessage db"
  by (simp_all add: prisma_updateOffer_def Let_def offer_apply_set_def comp_def if_distrib
        split: list.splits cong: if_cong)

lemma updateOffer_keeps_offer_status:
  "map offer_status (tbl_ListingOffer (fst (updateOffer db user i d now)))
     = map offer_status (tbl_ListingOffer db)"
proof (cases "offerSchema_partial_parse d")
  case (Inl e)
  then show ?thesis
    by (simp add: updateOffer_def split: option.splits)
next
  case (Inr v)
  note st = prisma_updateOffer_tables(1) [OF offerSchema_partial_parse_status [OF Inr], of db now i]
  show ?thesis
  proof (cases "prisma_updateOffer db now i v")
    case (Pair db1 res)
    with st have db1: "map offer_status (tbl_ListingOffer db1) = map offer_status (tbl_ListingOffer db)"
      by simp
    have "tbl_ListingOffer (fst (prisma_updateListing db1 now j p)) = tbl_ListingOffer db1" for j p
      by (rule prisma_updateListing_listings)
    then have "map offer_status (tbl_ListingOffer (fst (prisma_updateListing db1 now j p)))
        = map offer_status (tbl_ListingOffer db)" for j p
      using db1 by simp
    with Inr Pair db1 show ?thesis
      by (auto simp: updateOffer_def split: option.splits sum.splits prod.splits)
        (metis fst_conv)+
  qed
qed

lemma updateOffer_status_only:
  assumes "findListingById db i = Some l" and "listing_sellerId l = user_id user"
  shows "updateOffer db user i \<lparr>upd_amount = None, upd_message = None, upd_status = Some st\<rparr> now
      = (db, Inl TypeError)"
  using assms
  by (simp add: updateOffer_def truthy_amount_def truthy_message_def offerSchema_partial_parse_def
        option_ok_def prisma_updateOffer_def offer_setClauses_def)

section \<open>Payment notification\<close>

text \<open>
  Claim C7. \<^verbatim>\<open>markSold\<close> is the handler of \<^verbatim>\<open>payment.completed\<close>,
  \<open>handlePaymentCompleted\<close>. For a listing that exists, in whatever status, the first
  notification and a second one both return without an exception, the listing is
  \<^verbatim>\<open>SOLD\<close> after each of them, and the database after the two notifications is the
  database a single notification at the second time leaves: only \<^verbatim>\<open>updatedAt\<close> tells
  them apart.
\<close>

theorem markSold_idempotent:
  assumes "findListingById db i = Some l"
  shows "snd (handlePaymentCompleted db i t1) = Inr ()
       \<and> snd (handlePaymentCompleted (fst (handlePaymentCompleted db i t1)) i t2) = Inr ()
       \<and> map_option listing_status (findListingById (fst (handlePaymentCompleted db i t1)) i) = Some SOLD
       \<and> map_option listing_status
            (findListingById (fst (handlePaymentCompleted (fst (handlePaymentCompleted db i t1)) i t2)) i)
           = Some SOLD
       \<and> fst (handlePaymentCompleted (fst (handlePaymentCompleted db i t1)) i t2)
           = fst (handlePaymentCompleted db i t2)"
proof -
  from findListingById_Some [OF assms] obtain r where r: "listingRow db i = Some r" and rid: "listing_id r = i"
    by blast
  let ?sold = "\<lambda>t l. if listing_id l = i then l\<lparr>listing_status := SOLD, listing_updatedAt := t\<rparr> else l"
  let ?db1 = "db\<lparr>tbl_MarketplaceListing := map (?sold t1) (tbl_MarketplaceListing db)\<rparr>"
  have one: "handlePaymentCompleted db i t1 = (?db1, Inr ())"
    by (rule handlePaymentCompleted_row [OF r])
  have r1: "listingRow ?db1 i = Some (r\<lparr>listing_status := SOLD, listing_updatedAt := t1\<rparr>)"
    using r rid by (simp add: listingRow_def find_map_update)
  let ?db2 = "?db1\<lparr>tbl_MarketplaceListing := map (?sold t2) (tbl_MarketplaceListing ?db1)\<rparr>"
  have two: "handlePaymentCompleted ?db1 i t2 = (?db2, Inr ())"
    by (rule handlePaymentCompleted_row [OF r1])
  have same: "?db2 = db\<lparr>tbl_MarketplaceListing := map (?sold t2) (tbl_MarketplaceListing db)\<rparr>"
    by (simp add: comp_def if_distrib cong: if_cong)
  have r2: "listingRow ?db2 i = Some (r\<lparr>listing_status := SOLD, listing_updatedAt := t2\<rparr>)"
    unfolding same using r rid by (simp add: listingRow_def find_map_update)
  have direct: "handlePaymentCompleted db i t2
      = (db\<lparr>tbl_MarketplaceListing := map (?sold t2) (tbl_MarketplaceListing db)\<rparr>, Inr ())"
    by (rule handlePaymentCompleted_row [OF r])
  show ?thesis
    unfolding one two direct fst_conv snd_conv
    using findListingById_row [OF r1] findListingById_row [OF r2] same by simp
qed

theorem markSold_idempotent_witness:
  "findListingById (demo_db PENDING_PAYMENT []) ''L1'' \<noteq> None
   \<and> (snd (handlePaymentCompleted (demo_db PENDING_PAYMENT []) ''L1'' 7) = Inr ()
   \<and> snd (handlePaymentCompleted (fst (handlePaymentCompleted (demo_db PENDING_PAYMENT []) ''L1'' 7)) ''L1'' 8) = Inr ()
   \<and> map_option listing_status
        (findListingById (fst (handlePaymentCompleted (demo_db PENDING_PAYMENT []) ''L1'' 7)) ''L1'')
       = Some SOLD
   \<and> map_option listing_status
        (findListingById (fst (handlePaymentCompleted (fst (handlePaymentCompleted (demo_db PENDING_PAYMENT []) ''L1'' 7)) ''L1'' 8)) ''L1'')
       = Some SOLD
   \<and> fst (handlePaymentCompleted (fst (handlePaymentCompleted (demo_db PENDING_PAYMENT []) ''L1'' 7)) ''L1'' 8)
       = fst (handlePaymentCompleted (demo_db PENDING_PAYMENT []) ''L1'' 8))"
proof -
  have ex: "findListingById (demo_db PENDING_PAYMENT []) ''L1''
      = Some (toListingResult (demo_listing ''L1'' PENDING_PAYMENT) [] [])"
    by (simp add: findListingById_def demo_db_def demo_listing_def)
  then have h: "findListingById (demo_db PENDING_PAYMENT []) ''L1'' \<noteq> None"
    by simp
  from h markSold_idempotent [OF ex, of 7 8] show ?thesis
    by (rule conjI)
qed

section \<open>Approval\<close>

text \<open>
  Claim C5, as amended. \<open>handleListingApproved\<close> writes the status \<^verbatim>\<open>AVAILABLE\<close>
  without reading the current one, and no handler of the controller checks a
  transition. So for every approve request that reaches the handler (automatic approval
  off, the caller's role in \<^verbatim>\<open>roles.canApproveListings\<close>) on a listing that exists, the
  request succeeds and the listing is \<^verbatim>\<open>AVAILABLE\<close> afterwards, whatever its status was;
  from \<^verbatim>\<open>PENDING_APPROVAL\<close> in particular.
\<close>

theorem approve_from_any_status:
  assumes "\<not> autoApproval (features config)"
    and "user_role user \<in> set (canApproveListings (roles config))"
    and "findListingById db i = Some l"
  shows "snd (route_approve config db user i now) = Inr ()
       \<and> map_option listing_status (findListingById (fst (route_approve config db user i now)) i)
           = Some AVAILABLE"
proof -
  from findListingById_Some [OF assms(3)] obtain r where r: "listingRow db i = Some r" and rid: "listing_id r = i"
    by blast
  let ?db' = "db\<lparr>tbl_MarketplaceListing :=
            map (\<lambda>l. if listing_id l = i then l\<lparr>listing_status := AVAILABLE, listing_updatedAt := now\<rparr> else l)
              (tbl_MarketplaceListing db)\<rparr>"
  have run: "route_approve config db user i now = (?db', Inr ())"
    using assms(1,2) by (simp add: route_approve_def handleListingApproved_row [OF r])
  have "listingRow ?db' i = Some (r\<lparr>listing_status := AVAILABLE, listing_updatedAt := now\<rparr>)"
    using r rid by (simp add: listingRow_def find_map_update)
  from findListingById_row [OF this] show ?thesis
    unfolding run by simp
qed

theorem approve_from_any_status_witness:
  "(\<not> autoApproval (features default_config)
    \<and> user_role (parent ''P'') \<in> set (canApproveListings (roles default_config))
    \<and> map_option listing_status (findListingById (demo_db PENDING_APPROVAL []) ''L1'') = Some PENDING_APPROVAL)
   \<and> (snd (route_approve default_config (demo_db PENDING_APPROVAL []) (parent ''P'') ''L1'' 9) = Inr ()
       \<and> map_option listing_status
            (findListingById (fst (route_approve default_config (demo_db PENDING_APPROVAL []) (parent ''P'') ''L1'' 9)) ''L1'')
           = Some AVAILABLE)"
proof -
  have a: "\<not> autoApproval (features default_config)"
    by (simp add: default_config_def)
  have b: "user_role (parent ''P'') \<in> set (canApproveListings (roles default_config))"
    by (simp add: default_config_def parent_def)
  have c: "findListingById (demo_db PENDING_APPROVAL []) ''L1''
       = Some (toListingResult (demo_listing ''L1'' PENDING_APPROVAL) [] [])"
    by simp
  have d: "map_option listing_status (findListingById (demo_db PENDING_APPROVAL []) ''L1'') = Some PENDING_APPROVAL"
    by (simp add: demo_listing_def)
  from a b d approve_from_any_status [OF a b c, of 9] show ?thesis
    by blast
qed

text \<open>
  The claim as stated fails: approving a listing that is \<^verbatim>\<open>SOLD\<close> does not fail, and
  puts the listing back to \<^verbatim>\<open>AVAILABLE\<close>.
\<close>

theorem approve_invalid_transition_counterexample:
  "map_option listing_status (findListingById (demo_db SOLD []) ''L1'') = Some SOLD
   \<and> snd (route_approve default_config (demo_db SOLD []) (parent ''P'') ''L1'' 9) = Inr ()
   \<and> map_option listing_status
        (findListingById (fst (route_approve default_config (demo_db SOLD []) (parent ''P'') ''L1'' 9)) ''L1'')
       = Some AVAILABLE"
  by (simp add: route_approve_def handleListingApproved_def prisma_updateListing_def
        findListingById_def default_config_def parent_def
        demo_db_def demo_listing_def)

section \<open>Creating an offer\<close>

text \<open>
  Claim C6. A \<open>createOffer\<close> request on a listing that exists and whose status is not
  \<^verbatim>\<open>AVAILABLE\<close> fails with \<^verbatim>\<open>LISTING_UNAVAILABLE\<close>, whoever asks and whatever the body
  is, and the database it leaves is the database it found: no offer is created.
\<close>

theorem createOffer_listing_unavailable:
  assumes "findListingById db listingId = Some l" and "listing_status l \<noteq> AVAILABLE"
  shows "createOffer db user listingId d newId now = (db, Inl (MarketplaceError LISTING_UNAVAILABLE))"
  using assms by (simp add: createOffer_def)

theorem createOffer_listing_unavailable_witness:
  "(map_option listing_status (findListingById (demo_db PENDING_PAYMENT []) ''L1'') = Some PENDING_PAYMENT
     \<and> PENDING_PAYMENT \<noteq> AVAILABLE)
   \<and> createOffer (demo_db PENDING_PAYMENT []) (parent ''B3'') ''L1'' (demo_create_offer 90) ''O3'' 9
       = (demo_db PENDING_PAYMENT [], Inl (MarketplaceError LISTING_UNAVAILABLE))"
proof -
  have c: "findListingById (demo_db PENDING_PAYMENT []) ''L1''
       = Some (toListingResult (demo_listing ''L1'' PENDING_PAYMENT) [] [])"
    by simp
  have s: "listing_status (toListingResult (demo_listing ''L1'' PENDING_PAYMENT) [] []) \<noteq> AVAILABLE"
    by (simp add: demo_listing_def)
  from createOffer_listing_unavailable [OF c s] show ?thesis
    by (simp add: demo_listing_def)
qed

text \<open>
  Claim C3, as amended. The status of the listing is checked before the seller is. A
  \<open>createOffer\<close> request by the seller of a listing that is \<^verbatim>\<open>AVAILABLE\<close> fails with
  \<^verbatim>\<open>SELF_OFFER\<close> whatever the body is (the body is validated later), and nothing is
  written.
\<close>

theorem createOffer_self_offer:
  assumes "findListingById db listingId = Some l" and "listing_status l = AVAILABLE"
    and "listing_sellerId l = user_id user"
  shows "createOffer db user listingId d newId now = (db, Inl (MarketplaceError SELF_OFFER))"
  using assms by (simp add: createOffer_def)

theorem createOffer_self_offer_witness:
  "(map_option listing_status (findListingById (demo_db AVAILABLE []) ''L1'') = Some AVAILABLE
     \<and> map_option listing_sellerId (findListingById (demo_db AVAILABLE []) ''L1'') = Some (user_id (parent ''S'')))
   \<and> offerSchema_parse (demo_create_offer (- 5)) = Inl ZodError
   \<and> createOffer (demo_db AVAILABLE []) (parent ''S'') ''L1'' (demo_create_offer (- 5)) ''O3'' 9
       = (demo_db AVAILABLE [], Inl (MarketplaceError SELF_OFFER))"
proof -
  have c: "findListingById (demo_db AVAILABLE []) ''L1''
       = Some (toListingResult (demo_listing ''L1'' AVAILABLE) [] [])"
    by simp
  have s: "listing_status (toListingResult (demo_listing ''L1'' AVAILABLE) [] []) = AVAILABLE"
    by (simp add: demo_listing_def)
  have u: "listing_sellerId (toListingResult (demo_listing ''L1'' AVAILABLE) [] []) = user_id (parent ''S'')"
    by (simp add: demo_listing_def parent_def)
  from createOffer_self_offer [OF c s u] show ?thesis
    by (simp add: demo_listing_def parent_def offerSchema_parse_def demo_create_offer_def)
qed

text \<open>
  The claim as stated fails where the listing is not \<^verbatim>\<open>AVAILABLE\<close>: the seller's own
  request on a \<^verbatim>\<open>SOLD\<close> listing fails with \<^verbatim>\<open>LISTING_UNAVAILABLE\<close>, not with
  \<^verbatim>\<open>SELF_OFFER\<close>.
\<close>

theorem createOffer_self_offer_counterexample:
  "map_option listing_sellerId (findListingById (demo_db SOLD []) ''L1'') = Some (user_id (parent ''S''))
   \<and> snd (createOffer (demo_db SOLD []) (parent ''S'') ''L1'' (demo_create_offer 90) ''O3'' 9)
       = Inl (MarketplaceError LISTING_UNAVAILABLE)
   \<and> snd (createOffer (demo_db SOLD []) (parent ''S'') ''L1'' (demo_create_offer 90) ''O3'' 9)
       \<noteq> Inl (MarketplaceError SELF_OFFER)"
  by (simp add: createOffer_def demo_listing_def parent_def)

section \<open>Updating a listing\<close>

text \<open>
  Claim C8. For every \<open>updateListing\<close> call by the listing's seller, whatever the body:
  the stored status of the listing is the one it had before; the call either fails
  validation and writes nothing, or returns a listing with the status it had before; and a
  \<^verbatim>\<open>status\<close> key in the body has no effect at all, the call behaves as the call without
  it (the partial schema strips the key, so it never reaches the database client).
\<close>

theorem updateListing_keeps_status:
  assumes "findListingById db i = Some l" and "listing_sellerId l = user_id user"
  shows "map_option listing_status (findListingById (fst (updateListing db user i d now)) i)
           = Some (listing_status l)
       \<and> (updateListing db user i d now = (db, Inl ZodError)
           \<or> \<not> isl (snd (updateListing db user i d now))
             \<and> listing_status (projr (snd (updateListing db user i d now))) = listing_status l)
       \<and> updateListing db user i d now = updateListing db user i (d\<lparr>patch_status := None\<rparr>) now"
proof -
  from findListingById_Some [OF assms(1)] obtain r where r: "listingRow db i = Some r"
    and st: "listing_status l = listing_status r" by blast
  have same: "updateListing db user i d now = updateListing db user i (d\<lparr>patch_status := None\<rparr>) now"
    by (simp add: updateListing_def listingSchema_partial_parse_status split: option.splits)
  let ?R = "updateListing db user i d now"
  from listingSchema_partial_parse_cases [of d]
  have main: "map_option listing_status (findListingById (fst ?R) i) = Some (listing_status l)
       \<and> (?R = (db, Inl ZodError)
           \<or> \<not> isl (snd ?R) \<and> listing_status (projr (snd ?R)) = listing_status l)"
  proof
    assume z: "listingSchema_partial_parse d = Inl ZodError"
    then have "?R = (db, Inl ZodError)"
      using assms by (simp add: updateListing_def)
    with assms(1) show ?thesis by simp
  next
    assume "\<exists>v. listingSchema_partial_parse d = Inr v \<and> patch_status v = None \<and> patch_sellerId v = None"
    then obtain v where v: "listingSchema_partial_parse d = Inr v" and vs: "patch_status v = None"
      by blast
    have run: "?R = prisma_updateListing db now i v"
      using assms v by (simp add: updateListing_def)
    from prisma_updateListing_found [OF r, of now v] vs
    have ok: "\<not> isl (snd (prisma_updateListing db now i v))"
      and s1: "listing_status (projr (snd (prisma_updateListing db now i v))) = listing_status r"
      and row: "listingRow (fst (prisma_updateListing db now i v)) i
            = Some (if 0 < listing_setClauses v then listing_apply_set v now r else r)"
      by simp_all
    from findListingById_row [OF row] vs
    have "map_option listing_status (findListingById (fst (prisma_updateListing db now i v)) i)
        = Some (listing_status r)"
      by simp
    with ok s1 st show ?thesis
      unfolding run by simp
  qed
  from main same show ?thesis
    by (intro conjI) (erule conjE, assumption)+
qed

theorem updateListing_keeps_status_witness:
  "(map_option listing_status (findListingById (demo_db AVAILABLE []) ''L1'') = Some AVAILABLE
    \<and> map_option listing_sellerId (findListingById (demo_db AVAILABLE []) ''L1'') = Some (user_id (parent ''S''))
    \<and> patch_status demo_patch = Some SOLD)
   \<and> (map_option listing_status
        (findListingById (fst (updateListing (demo_db AVAILABLE []) (parent ''S'') ''L1'' demo_patch 9)) ''L1'')
       = Some AVAILABLE
     \<and> \<not> isl (snd (updateListing (demo_db AVAILABLE []) (parent ''S'') ''L1'' demo_patch 9))
     \<and> listing_status (projr (snd (updateListing (demo_db AVAILABLE []) (parent ''S'') ''L1'' demo_patch 9)))
       = AVAILABLE)"
proof -
  have c: "findListingById (demo_db AVAILABLE []) ''L1''
       = Some (toListingResult (demo_listing ''L1'' AVAILABLE) [] [])"
    by simp
  have u: "listing_sellerId (toListingResult (demo_listing ''L1'' AVAILABLE) [] []) = user_id (parent ''S'')"
    by (simp add: demo_listing_def parent_def)
  have s: "listing_status (toListingResult (demo_listing ''L1'' AVAILABLE) [] []) = AVAILABLE"
    by (simp add: demo_listing_def)
  have h: "map_option listing_status (findListingById (demo_db AVAILABLE []) ''L1'') = Some AVAILABLE
    \<and> map_option listing_sellerId (findListingById (demo_db AVAILABLE []) ''L1'') = Some (user_id (parent ''S''))
    \<and> patch_status demo_patch = Some SOLD"
    by (simp add: demo_listing_def parent_def demo_patch_def)
  have p: "listingSchema_partial_parse demo_patch \<noteq> Inl ZodError"
    by (simp add: listingSchema_partial_parse_def option_ok_def demo_patch_def)
  have nz: "updateListing (demo_db AVAILABLE []) (parent ''S'') ''L1'' demo_patch 9
             \<noteq> (demo_db AVAILABLE [], Inl ZodError)"
    using p u by (auto simp: updateListing_def prisma_updateListing_def Let_def
        split: sum.splits option.splits)
  from updateListing_keeps_status [OF c u, of demo_patch 9] nz h s
  show ?thesis
    by metis
qed

section \<open>The offer limit\<close>

text \<open>
  Claim C2, as amended. No function reads \<^verbatim>\<open>limits.maxOffersPerListing\<close>, and the route
  and the controller count no offers. So for every listing, a request to create an offer
  succeeds whenever the other preconditions are met (the caller's role may make offers,
  the listing exists and is \<^verbatim>\<open>AVAILABLE\<close>, the caller is not its seller, the amount is
  not negative, the generated id is new), however many offers the listing has: the new
  offer is \<^verbatim>\<open>PENDING\<close>, it is appended to the table, and the listing has one more
  non-terminal offer than before. The instance below creates offer number
  \<^verbatim>\<open>maxOffersPerListing + 1\<close>.
\<close>

theorem createOffer_no_offer_limit:
  assumes "user_role user \<in> set (canMakeOffers (roles config))"
    and "findListingById db listingId = Some l"
    and "listing_status l = AVAILABLE"
    and "listing_sellerId l \<noteq> user_id user"
    and "0 \<le> create_amount d"
    and "find (\<lambda>ofr. offer_id ofr = newId) (tbl_ListingOffer db) = None"
  shows "\<not> isl (snd (route_createOffer config db user listingId d newId now))
       \<and> offer_status (projr (snd (route_createOffer config db user listingId d newId now))) = PENDING
       \<and> offer_listingId (projr (snd (route_createOffer config db user listingId d newId now))) = listingId
       \<and> tbl_ListingOffer (fst (route_createOffer config db user listingId d newId now))
           = tbl_ListingOffer db @ [projr (snd (route_createOffer config db user listingId d newId now))]
       \<and> length (nonTerminalOffers (fst (route_createOffer config db user listingId d newId now)) listingId)
           = Suc (length (nonTerminalOffers db listingId))"
  using assms
  by (simp add: route_createOffer_def createOffer_def offerSchema_parse_def prisma_createOffer_def
        nonTerminalOffers_def Let_def)

theorem createOffer_no_offer_limit_witness:
  "(user_role (parent ''B3'') \<in> set (canMakeOffers (roles two_offers_config))
    \<and> map_option listing_status
         (findListingById (demo_db AVAILABLE [demo_offer ''O1'' ''L1'' ''B1'' 100 PENDING,
            demo_offer ''O2'' ''L1'' ''B2'' 120 PENDING]) ''L1'') = Some AVAILABLE
    \<and> map_option listing_sellerId
         (findListingById (demo_db AVAILABLE [demo_offer ''O1'' ''L1'' ''B1'' 100 PENDING,
            demo_offer ''O2'' ''L1'' ''B2'' 120 PENDING]) ''L1'') \<noteq> Some (user_id (parent ''B3''))
    \<and> 0 \<le> create_amount (demo_create_offer 90)
    \<and> find (\<lambda>ofr. offer_id ofr = ''O3'')
         (tbl_ListingOffer (demo_db AVAILABLE [demo_offer ''O1'' ''L1'' ''B1'' 100 PENDING,
            demo_offer ''O2'' ''L1'' ''B2'' 120 PENDING])) = None)
   \<and> length (nonTerminalOffers (demo_db AVAILABLE [demo_offer ''O1'' ''L1'' ''B1'' 100 PENDING,
            demo_offer ''O2'' ''L1'' ''B2'' 120 PENDING]) ''L1'')
       = maxOffersPerListing (limits two_offers_config)
   \<and> \<not> isl (snd (route_createOffer two_offers_config
          (demo_db AVAILABLE [demo_offer ''O1'' ''L1'' ''B1'' 100 PENDING,
            demo_offer ''O2'' ''L1'' ''B2'' 120 PENDING])
          (parent ''B3'') ''L1'' (demo_create_offer 90) ''O3'' 9))
   \<and> length (nonTerminalOffers (fst (route_createOffer two_offers_config
          (demo_db AVAILABLE [demo_offer ''O1'' ''L1'' ''B1'' 100 PENDING,
            demo_offer ''O2'' ''L1'' ''B2'' 120 PENDING])
          (parent ''B3'') ''L1'' (demo_create_offer 90) ''O3'' 9)) ''L1'')
       = Suc (maxOffersPerListing (limits two_offers_config))"
proof -
  let ?db = "demo_db AVAILABLE [demo_offer ''O1'' ''L1'' ''B1'' 100 PENDING,
            demo_offer ''O2'' ''L1'' ''B2'' 120 PENDING]"
  have a: "user_role (parent ''B3'') \<in> set (canMakeOffers (roles two_offers_config))"
    by (simp add: two_offers_config_def default_config_def parent_def)
  have b: "findListingById ?db ''L1'' = Some (toListingResult (demo_listing ''L1'' AVAILABLE)
         (remdups (filter (\<lambda>ofr. offer_listingId ofr = ''L1'')
            [demo_offer ''O1'' ''L1'' ''B1'' 100 PENDING, demo_offer ''O2'' ''L1'' ''B2'' 120 PENDING])) [])"
    by (rule demo_find)
  have c: "listing_status (toListingResult (demo_listing ''L1'' AVAILABLE)
         (remdups (filter (\<lambda>ofr. offer_listingId ofr = ''L1'')
            [demo_offer ''O1'' ''L1'' ''B1'' 100 PENDING, demo_offer ''O2'' ''L1'' ''B2'' 120 PENDING])) []) = AVAILABLE"
    by (simp add: demo_listing_def)
  have d: "listing_sellerId (toListingResult (demo_listing ''L1'' AVAILABLE)
         (remdups (filter (\<lambda>ofr. offer_listingId ofr = ''L1'')
            [demo_offer ''O1'' ''L1'' ''B1'' 100 PENDING, demo_offer ''O2'' ''L1'' ''B2'' 120 PENDING])) [])
        \<noteq> user_id (parent ''B3'')"
    by (simp add: demo_listing_def parent_def)
  have e: "0 \<le> create_amount (demo_create_offer 90)"
    by (simp add: demo_create_offer_def)
  have f: "find (\<lambda>ofr. offer_id ofr = ''O3'') (tbl_ListingOffer ?db) = None"
    by (simp add: demo_db_def demo_offer_def)
  have n: "length (nonTerminalOffers ?db ''L1'') = maxOffersPerListing (limits two_offers_config)"
    by (simp add: nonTerminalOffers_def two_offers_config_def default_config_def demo_db_def
          demo_offer_def)
  from createOffer_no_offer_limit [OF a b c d e f, of 9] a e f n show ?thesis
    by (simp add: b demo_listing_def parent_def)
qed

text \<open>
  The claim as stated fails: with \<^verbatim>\<open>maxOffersPerListing = 2\<close> and two \<^verbatim>\<open>PENDING\<close> offers
  on the listing, the third offer is created.
\<close>

theorem createOffer_limit_counterexample:
  "maxOffersPerListing (limits two_offers_config) = 2
   \<and> length (nonTerminalOffers (demo_db AVAILABLE [demo_offer ''O1'' ''L1'' ''B1'' 100 PENDING,
            demo_offer ''O2'' ''L1'' ''B2'' 120 PENDING]) ''L1'') = 2
   \<and> snd (route_createOffer two_offers_config
          (demo_db AVAILABLE [demo_offer ''O1'' ''L1'' ''B1'' 100 PENDING,
            demo_offer ''O2'' ''L1'' ''B2'' 120 PENDING])
          (parent ''B3'') ''L1'' (demo_create_offer 90) ''O3'' 9)
       = Inr (demo_offer ''O3'' ''L1'' ''B3'' 90 PENDING\<lparr>offer_createdAt := 9, offer_updatedAt := 9\<rparr>)
   \<and> length (nonTerminalOffers (fst (route_createOffer two_offers_config
          (demo_db AVAILABLE [demo_offer ''O1'' ''L1'' ''B1'' 100 PENDING,
            demo_offer ''O2'' ''L1'' ''B2'' 120 PENDING])
          (parent ''B3'') ''L1'' (demo_create_offer 90) ''O3'' 9)) ''L1'') = 3"
  by (simp add: route_createOffer_def createOffer_def offerSchema_parse_def prisma_createOffer_def
        nonTerminalOffers_def Let_def findListingById_def two_offers_config_def
        default_config_def parent_def demo_db_def demo_listing_def demo_offer_def
        demo_create_offer_def)

section \<open>Creating a listing\<close>

text \<open>
  Claim C4, evaluated where it fails. With \<^verbatim>\<open>features.autoApproval\<close> enabled a valid
  \<open>createListing\<close> request still stores and returns the listing as
  \<^verbatim>\<open>PENDING_APPROVAL\<close> (the insert names that status, and lemma \<open>createListing_status\<close>
  shows it for every request), while the same flag removes the approve route: the listing
  cannot become \<^verbatim>\<open>AVAILABLE\<close> through the route table.
\<close>

theorem createListing_autoApproval_pending:
  "autoApproval (features auto_config)
   \<and> \<not> isl (snd (route_createListing auto_config (demo_db AVAILABLE []) (parent ''S2'')
                 demo_create_listing ''L2'' 9))
   \<and> map_option listing_status
        (projr (snd (route_createListing auto_config (demo_db AVAILABLE []) (parent ''S2'')
                 demo_create_listing ''L2'' 9))) = Some PENDING_APPROVAL
   \<and> map_option listing_status
        (findListingById (fst (route_createListing auto_config (demo_db AVAILABLE []) (parent ''S2'')
                 demo_create_listing ''L2'' 9)) ''L2'') = Some PENDING_APPROVAL
   \<and> snd (route_approve auto_config
             (fst (route_createListing auto_config (demo_db AVAILABLE []) (parent ''S2'')
                 demo_create_listing ''L2'' 9)) (parent ''P'') ''L2'' 10) = Inl NoRoute"
  by (simp add: route_createListing_def createListing_def listingSchema_parse_def
        prisma_createListing_def Let_def findListingById_def route_approve_def auto_config_def
        default_config_def parent_def demo_db_def demo_listing_def demo_create_listing_def)

section \<open>The seller of a listing\<close>

text \<open>What each function of the client and of the controller does to the seller stored
  with a listing.\<close>

lemma listingRow_cong:
  "tbl_MarketplaceListing db' = tbl_MarketplaceListing db \<Longrightarrow> listingRow db' i = listingRow db i"
  by (simp add: listingRow_def)

lemma seller_prisma_updateListing:
  assumes "patch_sellerId d = None"
  shows "map_option listing_sellerId (listingRow (fst (prisma_updateListing db now j d)) i)
       = map_option listing_sellerId (listingRow db i)"
proof (cases "0 < listing_setClauses d")
  case True
  then have "listingRow (fst (prisma_updateListing db now j d)) i
      = map_option (\<lambda>l. if listing_id l = j then listing_apply_set d now l else l) (listingRow db i)"
    by (simp add: listingRow_def prisma_updateListing_listings find_map_update)
  with assms show ?thesis
    by (cases "listingRow db i") simp_all
next
  case False
  then show ?thesis
    by (simp add: listingRow_def prisma_updateListing_listings)
qed

lemma seller_prisma_createListing:
  assumes "listingRow db i = Some r"
  shows "listingRow (fst (prisma_createListing db newId now d s)) i = Some r"
  using assms by (simp add: prisma_createListing_def Let_def listingRow_def find_append_new)

lemma seller_prisma_deleteListing:
  assumes "listingRow (fst (prisma_deleteListing db j)) i = Some r"
  shows "listingRow db i = Some r"
  using assms
  by (simp add: prisma_deleteListing_def listingRow_def find_filter_other
        split: list.splits if_splits)

lemma prisma_createOffer_listings [simp]:
  "tbl_MarketplaceListing (fst (prisma_createOffer db newId now d lid b)) = tbl_MarketplaceListing db"
  by (simp add: prisma_createOffer_def Let_def)

lemma prisma_createMessage_listings [simp]:
  "tbl_MarketplaceListing (fst (prisma_createMessage db newId now d lid b)) = tbl_MarketplaceListing db"
  by (simp add: prisma_createMessage_def Let_def)

lemma status_patch_sellerId [simp]: "patch_sellerId (status_patch s) = None"
  by (simp add: status_patch_def)

lemma seller_createListing:
  "listingRow db i = Some r \<Longrightarrow> listingRow (fst (createListing db user d newId now)) i = Some r"
  by (simp add: createListing_def seller_prisma_createListing split: sum.splits)

lemma seller_updateListing:
  "map_option listing_sellerId (listingRow (fst (updateListing db user j d now)) i)
     = map_option listing_sellerId (listingRow db i)"
  using listingSchema_partial_parse_cases [of d]
  by (auto simp: updateListing_def seller_prisma_updateListing split: option.splits)

lemma deleteListing_fst:
  "fst (deleteListing db user j) = db
   \<or> fst (deleteListing db user j) = fst (prisma_deleteListing db j)"
  by (simp add: deleteListing_def split: option.splits prod.splits sum.splits)

lemma seller_deleteListing:
  "listingRow (fst (deleteListing db user j)) i = Some r \<Longrightarrow> listingRow db i = Some r"
  using deleteListing_fst [of db user j] seller_prisma_deleteListing [of db j i r]
  by auto

lemma seller_createOffer:
  "listingRow (fst (createOffer db user lid d newId now)) i = listingRow db i"
  by (rule listingRow_cong) (simp add: createOffer_def split: option.splits sum.splits)

lemma seller_createMessage:
  "listingRow (fst (createMessage db user lid d newId now)) i = listingRow db i"
  by (rule listingRow_cong) (simp add: createMessage_def split: option.splits sum.splits)

lemma handlers_fst:
  "fst (handleListingApproved db j now) = fst (prisma_updateListing db now j (status_patch AVAILABLE))"
  "fst (handlePaymentCompleted db j now) = fst (prisma_updateListing db now j (status_patch SOLD))"
  by (simp_all add: handleListingApproved_def handlePaymentCompleted_def
        split: prod.splits sum.splits)

lemma seller_handlers:
  "map_option listing_sellerId (listingRow (fst (handleListingApproved db j now)) i)
     = map_option listing_sellerId (listingRow db i)"
  "map_option listing_sellerId (listingRow (fst (handlePaymentCompleted db j now)) i)
     = map_option listing_sellerId (listingRow db i)"
  by (simp_all add: handlers_fst seller_prisma_updateListing)

lemma seller_updateOffer:
  "map_option listing_sellerId (listingRow (fst (updateOffer db user j d now)) i)
     = map_option listing_sellerId (listingRow db i)"
proof (cases "offerSchema_partial_parse d")
  case (Inl e)
  then show ?thesis
    by (simp add: updateOffer_def split: option.splits)
next
  case (Inr v)
  show ?thesis
  proof (cases "prisma_updateOffer db now j v")
    case (Pair db1 res)
    then have "tbl_MarketplaceListing db1 = tbl_MarketplaceListing db"
      using prisma_updateOffer_tables(2) [of db now j v] by simp
    then have row1: "listingRow db1 i = listingRow db i"
      by (rule listingRow_cong)
    have "map_option listing_sellerId
            (listingRow (fst (prisma_updateListing db1 now k (status_patch PENDING_PAYMENT))) i)
        = map_option listing_sellerId (listingRow db i)" for k
      using seller_prisma_updateListing [of "status_patch PENDING_PAYMENT" db1 now k i] row1 by simp
    with Inr Pair row1 show ?thesis
      by (auto simp: updateOffer_def split: option.splits sum.splits prod.splits)
        (metis fst_conv)+
  qed
qed

lemma dispatch_seller:
  assumes "listingRow db i = Some r" and "listingRow (dispatch config db req) i = Some r'"
  shows "listing_sellerId r' = listing_sellerId r"
proof (cases req)
  case (PostListing user d newId now)
  with assms seller_createListing [OF assms(1), of user d newId now] show ?thesis
    by (simp add: route_createListing_def split: if_splits)
next
  case (PutListing user j d now)
  with assms seller_updateListing [of db user j d now i] show ?thesis by simp
next
  case (DeleteListing user j)
  with assms seller_deleteListing [of db user j i r'] show ?thesis
    by (simp add: route_deleteListing_def split: if_splits)
next
  case (PostOffer user lid d newId now)
  with assms show ?thesis
    by (simp add: route_createOffer_def seller_createOffer split: if_splits)
next
  case (PutOffer user j d now)
  with assms seller_updateOffer [of db user j d now i] show ?thesis by simp
next
  case (PostMessage user lid d newId now)
  with assms show ?thesis by (simp add: seller_createMessage)
next
  case (PostApprove user j now)
  with assms seller_handlers(1) [of db j now i] show ?thesis
    by (simp add: route_approve_def split: if_splits)
next
  case (PaymentCompleted j now)
  with assms seller_handlers(2) [of db j now i] show ?thesis by simp
qed

text \<open>
  Claim C9. No request changes the seller of a listing: for every request the route
  table accepts (create, update and delete a listing, create and update an offer, create
  a message, approve, payment notification), a listing that exists before the request and
  after it has the same \<^verbatim>\<open>sellerId\<close>. In particular \<open>updateListing\<close>: in the instance
  below the seller's own update body carries a \<^verbatim>\<open>sellerId\<close> key (and a title); the
  title is written, the seller is not.
\<close>

theorem sellerId_never_changes:
  assumes "findListingById db i = Some l"
    and "findListingById (dispatch config db req) i = Some l'"
  shows "listing_sellerId l' = listing_sellerId l"
proof -
  from findListingById_Some [OF assms(1)] obtain r
    where r: "listingRow db i = Some r" "listing_sellerId l = listing_sellerId r" by blast
  from findListingById_Some [OF assms(2)] obtain r'
    where r': "listingRow (dispatch config db req) i = Some r'" "listing_sellerId l' = listing_sellerId r'"
    by blast
  from dispatch_seller [OF r(1) r'(1)] r(2) r'(2) show ?thesis by simp
qed

theorem sellerId_never_changes_witness:
  "(map_option listing_sellerId (findListingById (demo_db AVAILABLE []) ''L1'') = Some ''S''
    \<and> findListingById (dispatch default_config (demo_db AVAILABLE [])
          (PutListing (parent ''S'') ''L1'' demo_patch 9)) ''L1'' \<noteq> None
    \<and> patch_sellerId demo_patch = Some ''X'')
   \<and> map_option listing_sellerId
        (findListingById (dispatch default_config (demo_db AVAILABLE [])
          (PutListing (parent ''S'') ''L1'' demo_patch 9)) ''L1'') = Some ''S''
   \<and> map_option listing_title
        (findListingById (dispatch default_config (demo_db AVAILABLE [])
          (PutListing (parent ''S'') ''L1'' demo_patch 9)) ''L1'') = Some ''Trike''"
proof -
  let ?db' = "dispatch default_config (demo_db AVAILABLE []) (PutListing (parent ''S'') ''L1'' demo_patch 9)"
  have c: "findListingById (demo_db AVAILABLE []) ''L1''
       = Some (toListingResult (demo_listing ''L1'' AVAILABLE) [] [])"
    by simp
  have s: "listing_sellerId (toListingResult (demo_listing ''L1'' AVAILABLE) [] []) = ''S''"
    by (simp add: demo_listing_def)
  have run: "findListingById ?db' ''L1''
       = Some (toListingResult
           (demo_listing ''L1'' AVAILABLE\<lparr>listing_title := ''Trike'', listing_updatedAt := 9\<rparr>) [] [])"
    by (simp add: updateListing_def listingSchema_partial_parse_def option_ok_def
          prisma_updateListing_def listing_setClauses_def listing_apply_set_def Let_def
          findListingById_def default_config_def parent_def demo_db_def demo_listing_def
          demo_patch_def)
  then have ne: "findListingById ?db' ''L1'' \<noteq> None"
    by simp
  then obtain l' where l': "findListingById ?db' ''L1'' = Some l'"
    by blast
  from sellerId_never_changes [OF c l'] s
  have keep: "map_option listing_sellerId (findListingById ?db' ''L1'') = Some ''S''"
    by (simp only: l' option.map)
  have title: "map_option listing_title (findListingById ?db' ''L1'') = Some ''Trike''"
    by (simp only: run) (simp add: toListingResult_def MarketplaceListing.defs ListingResult.defs)
  have h1: "map_option listing_sellerId (findListingById (demo_db AVAILABLE []) ''L1'') = Some ''S''"
    by (simp only: c option.map s)
  have p: "patch_sellerId demo_patch = Some ''X''"
    by (simp add: demo_patch_def)
  from h1 ne p keep title show ?thesis
    by blast
qed

section \<open>Updating an offer\<close>

lemma prisma_updateListing_status_patch_listings:
  "tbl_MarketplaceListing (fst (prisma_updateListing db now i (status_patch s)))
     = map (\<lambda>x. if listing_id x = i then x\<lparr>listing_status := s, listing_updatedAt := now\<rparr> else x)
         (tbl_MarketplaceListing db)"
  by (simp add: prisma_updateListing_listings)

text \<open>
  Claim C10. \<open>updateOffer\<close> hands the id of its route (\<^verbatim>\<open>/offers/:id\<close>, the offer's
  id) to \<open>findListingById\<close>, and works on the listing found there, not on the listing
  the offer names in \<^verbatim>\<open>listingId\<close>. For every call with id \<open>i\<close>:
  \<^item> when no listing has the id \<open>i\<close>, the call fails with \<^verbatim>\<open>LISTING_NOT_FOUND\<close> and
    writes nothing, whether or not the offer exists;
  \<^item> when a listing has the id \<open>i\<close>, the two authorization checks read that listing's
    seller: a body with a status from anyone else, and a body with a truthy amount or
    message from that seller, fail with \<^verbatim>\<open>FORBIDDEN\<close> and write nothing;
  \<^item> when the call succeeds, the listing table afterwards is the table before with the
    rows of id \<open>i\<close> set to \<^verbatim>\<open>PENDING_PAYMENT\<close> if the body's status is
    \<^verbatim>\<open>ACCEPTED\<close>, and the table before otherwise: no other listing is written.

  The instances below: an offer \<open>O1\<close> on listing \<open>L1\<close> with no listing of id \<open>O1\<close>
  (\<^verbatim>\<open>LISTING_NOT_FOUND\<close>); and a database where a second listing, of seller \<open>T\<close>, has the
  id \<open>O1\<close>: the seller \<open>S\<close> of the offer's own listing is refused, \<open>T\<close> is refused
  a new amount, and the accept by \<open>T\<close> moves the listing \<open>O1\<close> and leaves \<open>L1\<close>.
\<close>

theorem updateOffer_looks_up_listing_by_offer_id:
  "(findListingById db i = None \<longrightarrow>
      updateOffer db user i d now = (db, Inl (MarketplaceError LISTING_NOT_FOUND)))
   \<and> (\<forall>l. findListingById db i = Some l \<longrightarrow>
        (upd_status d \<noteq> None \<and> listing_sellerId l \<noteq> user_id user \<longrightarrow>
           updateOffer db user i d now = (db, Inl (MarketplaceError FORBIDDEN)))
        \<and> ((truthy_amount (upd_amount d) \<or> truthy_message (upd_message d))
              \<and> listing_sellerId l = user_id user \<longrightarrow>
           updateOffer db user i d now = (db, Inl (MarketplaceError FORBIDDEN)))
        \<and> (\<not> isl (snd (updateOffer db user i d now)) \<longrightarrow>
             tbl_MarketplaceListing (fst (updateOffer db user i d now))
               = (if upd_status d = Some ACCEPTED
                  then map (\<lambda>x. if listing_id x = i
                                 then x\<lparr>listing_status := PENDING_PAYMENT, listing_updatedAt := now\<rparr>
                                 else x) (tbl_MarketplaceListing db)
                  else tbl_MarketplaceListing db)))"
proof (intro conjI impI allI)
  assume "findListingById db i = None"
  then show "updateOffer db user i d now = (db, Inl (MarketplaceError LISTING_NOT_FOUND))"
    by (simp add: updateOffer_def)
next
  fix l
  assume "findListingById db i = Some l"
    and "upd_status d \<noteq> None \<and> listing_sellerId l \<noteq> user_id user"
  then show "updateOffer db user i d now = (db, Inl (MarketplaceError FORBIDDEN))"
    by (simp add: updateOffer_def)
next
  fix l
  assume "findListingById db i = Some l"
    and "(truthy_amount (upd_amount d) \<or> truthy_message (upd_message d))
          \<and> listing_sellerId l = user_id user"
  then show "updateOffer db user i d now = (db, Inl (MarketplaceError FORBIDDEN))"
    by (auto simp: updateOffer_def)
next
  fix l
  assume l: "findListingById db i = Some l"
    and ok: "\<not> isl (snd (updateOffer db user i d now))"
  from findListingById_Some [OF l] have lid: "listing_id l = i"
    by blast
  show "tbl_MarketplaceListing (fst (updateOffer db user i d now))
               = (if upd_status d = Some ACCEPTED
                  then map (\<lambda>x. if listing_id x = i
                                 then x\<lparr>listing_status := PENDING_PAYMENT, listing_updatedAt := now\<rparr>
                                 else x) (tbl_MarketplaceListing db)
                  else tbl_MarketplaceListing db)"
  proof (cases "offerSchema_partial_parse d")
    case (Inl e)
    with l ok show ?thesis
      by (simp add: updateOffer_def split: if_splits)
  next
    case (Inr v)
    obtain db1 res where run: "prisma_updateOffer db now i v = (db1, res)"
      by (cases "prisma_updateOffer db now i v")
    with prisma_updateOffer_tables(2) [of db now i v]
    have t1: "tbl_MarketplaceListing db1 = tbl_MarketplaceListing db"
      by simp
    show ?thesis
    proof (cases res)
      case (Inl e)
      with l ok Inr run show ?thesis
        by (simp add: updateOffer_def split: if_splits)
    next
      case (Inr updatedOffer)
      show ?thesis
      proof (cases "upd_status d = Some ACCEPTED")
        case False
        with l ok Inr \<open>offerSchema_partial_parse d = Inr v\<close> run t1 show ?thesis
          by (simp add: updateOffer_def split: if_splits)
      next
        case True
        obtain db2 res2 where run2:
          "prisma_updateListing db1 now i (status_patch PENDING_PAYMENT) = (db2, res2)"
          by (cases "prisma_updateListing db1 now i (status_patch PENDING_PAYMENT)")
        with prisma_updateListing_status_patch_listings [of db1 now i PENDING_PAYMENT] t1
        have t2: "tbl_MarketplaceListing db2
            = map (\<lambda>x. if listing_id x = i
                       then x\<lparr>listing_status := PENDING_PAYMENT, listing_updatedAt := now\<rparr>
                       else x) (tbl_MarketplaceListing db)"
          by simp
        have "fst (updateOffer db user i d now) = db2"
          using l ok Inr \<open>offerSchema_partial_parse d = Inr v\<close> run run2 True lid
          by (simp add: updateOffer_def split: if_splits sum.splits)
        with t2 True show ?thesis
          by simp
      qed
    qed
  qed
qed

theorem updateOffer_looks_up_listing_by_offer_id_witness:
  "(findListingById (demo_db AVAILABLE [demo_offer ''O1'' ''L1'' ''B1'' 100 PENDING]) ''O1'' = None
     \<and> updateOffer (demo_db AVAILABLE [demo_offer ''O1'' ''L1'' ''B1'' 100 PENDING]) (parent ''S'') ''O1''
          (accept_body None) 9
        = (demo_db AVAILABLE [demo_offer ''O1'' ''L1'' ''B1'' 100 PENDING],
           Inl (MarketplaceError LISTING_NOT_FOUND)))
   \<and> (map_option listing_sellerId (findListingById shared_id_db ''O1'') = Some ''T''
     \<and> map offer_listingId (filter (\<lambda>ofr. offer_id ofr = ''O1'') (tbl_ListingOffer shared_id_db)) = [''L1'']
     \<and> map_option listing_sellerId (findListingById shared_id_db ''L1'') = Some (user_id (parent ''S''))
     \<and> updateOffer shared_id_db (parent ''S'') ''O1'' (accept_body None) 9
        = (shared_id_db, Inl (MarketplaceError FORBIDDEN)))
   \<and> (truthy_amount (upd_amount \<lparr>upd_amount = Some 50, upd_message = None, upd_status = None\<rparr>)
     \<and> updateOffer shared_id_db (parent ''T'') ''O1''
          \<lparr>upd_amount = Some 50, upd_message = None, upd_status = None\<rparr> 9
        = (shared_id_db, Inl (MarketplaceError FORBIDDEN)))
   \<and> (\<not> isl (snd (updateOffer shared_id_db (parent ''T'') ''O1'' (accept_body (Some 0)) 9))
     \<and> map (\<lambda>x. (listing_id x, listing_status x))
          (tbl_MarketplaceListing (fst (updateOffer shared_id_db (parent ''T'') ''O1'' (accept_body (Some 0)) 9)))
        = [(''L1'', AVAILABLE), (''O1'', PENDING_PAYMENT)])"
proof -
  let ?db1 = "demo_db AVAILABLE [demo_offer ''O1'' ''L1'' ''B1'' 100 PENDING]"
  let ?l = "toListingResult ((demo_listing ''O1'' AVAILABLE)\<lparr>listing_sellerId := ''T''\<rparr>) [] []"
  let ?amount = "\<lparr>upd_amount = Some 50, upd_message = None, upd_status = None\<rparr>"
  have n: "findListingById ?db1 ''O1'' = None"
    by (simp add: findListingById_def demo_db_def demo_listing_def)
  from updateOffer_looks_up_listing_by_offer_id [of ?db1 "''O1''" "parent ''S''" "accept_body None" 9] n
  have r1: "updateOffer ?db1 (parent ''S'') ''O1'' (accept_body None) 9
        = (?db1, Inl (MarketplaceError LISTING_NOT_FOUND))"
    by blast
  have f: "findListingById shared_id_db ''O1'' = Some ?l"
    by (simp add: findListingById_def shared_id_db_def demo_listing_def demo_offer_def)
  have seller: "listing_sellerId ?l = ''T''"
    by simp
  have own: "map offer_listingId (filter (\<lambda>ofr. offer_id ofr = ''O1'') (tbl_ListingOffer shared_id_db)) = [''L1'']"
    by (simp add: shared_id_db_def demo_offer_def)
  have own_seller: "map_option listing_sellerId (findListingById shared_id_db ''L1'') = Some (user_id (parent ''S''))"
    by (simp add: findListingById_def shared_id_db_def demo_listing_def parent_def)
  have h2: "upd_status (accept_body None) \<noteq> None \<and> listing_sellerId ?l \<noteq> user_id (parent ''S'')"
    by (simp add: accept_body_def parent_def)
  from updateOffer_looks_up_listing_by_offer_id [of shared_id_db "''O1''" "parent ''S''" "accept_body None" 9] f h2
  have r2: "updateOffer shared_id_db (parent ''S'') ''O1'' (accept_body None) 9
        = (shared_id_db, Inl (MarketplaceError FORBIDDEN))"
    by blast
  have t: "truthy_amount (upd_amount ?amount)"
    by (simp add: truthy_amount_def)
  then have h3: "(truthy_amount (upd_amount ?amount) \<or> truthy_message (upd_message ?amount))
        \<and> listing_sellerId ?l = user_id (parent ''T'')"
    by (simp add: parent_def)
  from updateOffer_looks_up_listing_by_offer_id [of shared_id_db "''O1''" "parent ''T''" ?amount 9] f h3
  have r3: "updateOffer shared_id_db (parent ''T'') ''O1'' ?amount 9
        = (shared_id_db, Inl (MarketplaceError FORBIDDEN))"
    by blast
  have ok: "\<not> isl (snd (updateOffer shared_id_db (parent ''T'') ''O1'' (accept_body (Some 0)) 9))"
    by (simp add: updateOffer_def truthy_amount_def truthy_message_def offerSchema_partial_parse_def
          option_ok_def prisma_updateOffer_def offer_setClauses_def offer_apply_set_def Let_def
          prisma_updateListing_def findListingById_def parent_def shared_id_db_def
          demo_listing_def demo_offer_def accept_body_def)
  from updateOffer_looks_up_listing_by_offer_id [of shared_id_db "''O1''" "parent ''T''" "accept_body (Some 0)" 9] f ok
  have "tbl_MarketplaceListing (fst (updateOffer shared_id_db (parent ''T'') ''O1'' (accept_body (Some 0)) 9))
      = (if upd_status (accept_body (Some 0)) = Some ACCEPTED
         then map (\<lambda>x. if listing_id x = ''O1''
                        then x\<lparr>listing_status := PENDING_PAYMENT, listing_updatedAt := 9\<rparr>
                        else x) (tbl_MarketplaceListing shared_id_db)
         else tbl_MarketplaceListing shared_id_db)"
    by blast
  then have r4: "map (\<lambda>x. (listing_id x, listing_status x))
          (tbl_MarketplaceListing (fst (updateOffer shared_id_db (parent ''T'') ''O1'' (accept_body (Some 0)) 9)))
        = [(''L1'', AVAILABLE), (''O1'', PENDING_PAYMENT)]"
    by (simp add: accept_body_def shared_id_db_def demo_listing_def)
  from f seller have s1: "map_option listing_sellerId (findListingById shared_id_db ''O1'') = Some ''T''"
    by (simp only: option.map)
  from n r1 s1 own own_seller r2 t r3 ok r4 show ?thesis
    by blast
qed

section \<open>Accepting an offer\<close>




















text \<open>
  The hypothesis is needed. Where an offer does share its id with a listing, the accept
  by that listing's seller with a falsy amount succeeds: the listing of that id moves to
  \<^verbatim>\<open>PENDING_PAYMENT\<close> and the offer stays \<^verbatim>\<open>PENDING\<close>, because \<^verbatim>\<open>offerSchema\<close> has no
  \<^verbatim>\<open>status\<close> key (lemma \<open>updateOffer_keeps_offer_status\<close>).
\<close>

lemma updateOffer_shared_id:
  "\<not> disjoint_ids shared_id_db
   \<and> snd (updateOffer shared_id_db (parent ''T'') ''O1'' (accept_body (Some 0)) 9)
       = Inr (demo_offer ''O1'' ''L1'' ''B1'' 0 PENDING\<lparr>offer_updatedAt := 9\<rparr>)
   \<and> map offer_status (tbl_ListingOffer (fst (updateOffer shared_id_db (parent ''T'') ''O1''
          (accept_body (Some 0)) 9))) = [PENDING]
   \<and> map (\<lambda>x. (listing_id x, listing_status x))
        (tbl_MarketplaceListing (fst (updateOffer shared_id_db (parent ''T'') ''O1''
          (accept_body (Some 0)) 9)))
       = [(''L1'', AVAILABLE), (''O1'', PENDING_PAYMENT)]"
  by (simp add: disjoint_ids_def updateOffer_def truthy_amount_def truthy_message_def
        offerSchema_partial_parse_def option_ok_def prisma_updateOffer_def offer_setClauses_def
        offer_apply_set_def Let_def prisma_updateListing_def findListingById_def parent_def
        shared_id_db_def demo_listing_def demo_offer_def accept_body_def)

end
